theory Spec2Isabelle
  imports Main "HOL-Library.Finite_Map"
begin

section \<open>Values and Pydantic models (main.py 6-31, async-main.py 7-24)\<close>

text \<open>
  Python values of type \<open>Any\<close> that occur in the dictionaries of the program: \<open>None\<close>,
  strings, integers, byte strings and nested dictionaries. A \<open>Dict[str, Any]\<close> is a
  finite map from strings to values; \<open>d1.update(d2)\<close> is \<open>d1 ++\<^sub>f d2\<close>.
\<close>

datatype val = VNone | VStr string | VInt int | VBytes string | VDict "(string, val) fmap"

type_synonym dict = "(string, val) fmap"

definition opt_str :: "string option \<Rightarrow> val" where
  "opt_str x = (case x of None \<Rightarrow> VNone | Some s \<Rightarrow> VStr s)"

definition opt_int :: "int option \<Rightarrow> val" where
  "opt_int x = (case x of None \<Rightarrow> VNone | Some i \<Rightarrow> VInt i)"

definition opt_dict :: "dict option \<Rightarrow> val" where
  "opt_dict x = (case x of None \<Rightarrow> VNone | Some d \<Rightarrow> VDict d)"

text \<open>
  The models. Field names carry a prefix (\<open>mb_\<close>, \<open>mo_\<close>, \<open>mf_\<close>, \<open>wc_\<close>) because
  \<open>size\<close> and \<open>id\<close> are constants of HOL and the bare names are used for parameters.
  \<open>mo_fields_set\<close> is Pydantic's \<open>__fields_set__\<close>: the names of the fields that
  were passed to the constructor. \<open>MinioFile\<close> extends \<open>MinioObject\<close> as the subclass does.
\<close>

record MinioBucket =
  mb_name :: string
  mb_creation_date :: "string option"
  mb_fields_set :: "string set"

record MinioObject =
  mo_key :: string
  mo_size :: "int option"
  mo_metadata :: dict
  mo_etag :: "string option"
  mo_fields_set :: "string set"

record MinioFile = MinioObject +
  mf_content_type :: "string option"
  mf_last_modified :: "string option"

record WeaviateClass =
  wc_class_name :: string
  wc_properties :: dict
  wc_id :: "string option"
  wc_context :: "dict option"
  wc_fields_set :: "string set"

text \<open>\<open>minio_model: BaseModel\<close>: an instance of one of the model classes.\<close>

datatype minio_model = Bucket MinioBucket | Object MinioObject | File MinioFile

text \<open>The declared fields of a model with their current values, in declaration order.\<close>

definition MinioObject_fields :: "'a MinioObject_scheme \<Rightarrow> (string \<times> val) list" where
  "MinioObject_fields m =
     [(''key'', VStr (mo_key m)), (''size'', opt_int (mo_size m)),
      (''metadata'', VDict (mo_metadata m)), (''etag'', opt_str (mo_etag m))]"

fun model_fields :: "minio_model \<Rightarrow> (string \<times> val) list" where
  "model_fields (Bucket b) =
     [(''name'', VStr (mb_name b)), (''creation_date'', opt_str (mb_creation_date b))]"
| "model_fields (Object m) = MinioObject_fields m"
| "model_fields (File f) =
     MinioObject_fields f @
     [(''content_type'', opt_str (mf_content_type f)),
      (''last_modified'', opt_str (mf_last_modified f))]"

fun model_fields_set :: "minio_model \<Rightarrow> string set" where
  "model_fields_set (Bucket b) = mb_fields_set b"
| "model_fields_set (Object m) = mo_fields_set m"
| "model_fields_set (File f) = mo_fields_set f"

text \<open>\<open>minio_model.dict(exclude_unset=True)\<close>: the fields that were explicitly set.\<close>

definition dict_exclude_unset :: "minio_model \<Rightarrow> dict" where
  "dict_exclude_unset m =
     fmap_of_list (filter (\<lambda>(k, v). k \<in> model_fields_set m) (model_fields m))"

text \<open>\<open>MinioObject(key=object_key, metadata=metadata)\<close>: two fields are set.\<close>

definition MinioObject_init :: "string \<Rightarrow> dict \<Rightarrow> MinioObject" where
  "MinioObject_init object_key md =
     \<lparr>mo_key = object_key, mo_size = None, mo_metadata = md, mo_etag = None,
      mo_fields_set = {''key'', ''metadata''}\<rparr>"

text \<open>
  \<open>cls(class_name=class_name, properties=model_dict)\<close>: \<open>id\<close> takes its default
  \<open>None\<close> and \<open>context\<close> its default factory \<open>dict\<close>.
\<close>

definition WeaviateClass_init :: "string \<Rightarrow> dict \<Rightarrow> WeaviateClass" where
  "WeaviateClass_init class_name props =
     \<lparr>wc_class_name = class_name, wc_properties = props, wc_id = None,
      wc_context = Some fmempty, wc_fields_set = {''class_name'', ''properties''}\<rparr>"

text \<open>\<open>data_object.dict()\<close>: all four fields.\<close>

definition WeaviateClass_dict :: "WeaviateClass \<Rightarrow> dict" where
  "WeaviateClass_dict c =
     fmap_of_list
       [(''class_name'', VStr (wc_class_name c)), (''properties'', VDict (wc_properties c)),
        (''id'', opt_str (wc_id c)), (''context'', opt_dict (wc_context c))]"

text \<open>
  \<open>WeaviateClass.from_minio_model\<close>. \<open>if additional_props:\<close> is false for \<open>None\<close>
  and for the empty dictionary.
\<close>

definition from_minio_model :: "string \<Rightarrow> minio_model \<Rightarrow> dict option \<Rightarrow> WeaviateClass" where
  "from_minio_model class_name minio_model additional_props =
     (let model_dict = dict_exclude_unset minio_model;
          model_dict' = (case additional_props of
                           None \<Rightarrow> model_dict
                         | Some d \<Rightarrow> if d = fmempty then model_dict else model_dict ++\<^sub>f d)
      in WeaviateClass_init class_name model_dict')"


section \<open>Exceptions, client calls and the world\<close>

text \<open>
  A raised exception, with its class name and its text \<open>str(e)\<close>. \<open>Exn\<close> is an
  instance of \<open>Exception\<close> (what the client libraries raise for a failed request);
  \<open>BaseExn\<close> is an instance of \<open>BaseException\<close> that is not an \<open>Exception\<close>
  (\<open>asyncio.CancelledError\<close>, \<open>KeyboardInterrupt\<close>, \<open>SystemExit\<close>), which can also
  surface in a client call. \<open>is_Exception\<close> is \<open>isinstance(e, Exception)\<close>.
\<close>

datatype exn =
    is_Exception: Exn (exn_class: string) (exn_str: string)
  | BaseExn (exn_class: string) (exn_str: string)

text \<open>
  The object returned by \<open>minio_client.get_object\<close> (a response stream), and the
  response of an aiohttp request with its \<open>status\<close> attribute.
\<close>

datatype stream = Stream string

datatype http_response = Response (status: int) (body: string)

text \<open>The dictionary \<open>{"content": content, "metadata": metadata}\<close> (always truthy).\<close>

record object_data =
  od_content :: string
  od_metadata :: dict

text \<open>
  The calls the program makes on its collaborators, with their arguments. The MinIO and
  Weaviate clients and the aiohttp session are not part of the repository: they are
  parameters of the model. Each operation takes the state \<open>'s\<close> of the external services
  and returns either an exception or its result, together with the new state.
\<close>

datatype call =
    is_GetObject: GetObject string string
  | StreamStat stream
  | is_PutObject: PutObject string string stream int
  | StatObject string string
  | StreamRead stream
  | is_CopyObject: CopyObject string string string dict
  | is_DataObjectCreate: DataObjectCreate dict string
  | SessionGet string
  | ResponseRead http_response
  | is_SessionPut: SessionPut string string
  | SessionPost string dict

record 's minio_client =
  get_object :: "string \<Rightarrow> string \<Rightarrow> 's \<Rightarrow> (exn + stream) \<times> 's"
  stream_stat_size :: "stream \<Rightarrow> 's \<Rightarrow> (exn + int) \<times> 's"
  put_object :: "string \<Rightarrow> string \<Rightarrow> stream \<Rightarrow> int \<Rightarrow> 's \<Rightarrow> (exn + unit) \<times> 's"
  stat_object_metadata :: "string \<Rightarrow> string \<Rightarrow> 's \<Rightarrow> (exn + dict) \<times> 's"
  stream_read :: "stream \<Rightarrow> 's \<Rightarrow> (exn + string) \<times> 's"
  copy_object :: "string \<Rightarrow> string \<Rightarrow> string \<Rightarrow> dict \<Rightarrow> 's \<Rightarrow> (exn + unit) \<times> 's"

record 's weaviate_client =
  data_object_create :: "dict \<Rightarrow> string \<Rightarrow> 's \<Rightarrow> (exn + string) \<times> 's"

record 's client_session =
  session_get :: "string \<Rightarrow> 's \<Rightarrow> (exn + http_response) \<times> 's"
  response_read :: "http_response \<Rightarrow> 's \<Rightarrow> (exn + string) \<times> 's"
  session_put :: "string \<Rightarrow> string \<Rightarrow> 's \<Rightarrow> (exn + http_response) \<times> 's"
  session_post :: "string \<Rightarrow> dict \<Rightarrow> 's \<Rightarrow> (exn + http_response) \<times> 's"

text \<open>
  The stages of the pipeline as the coordinators call them. \<open>Fetch\<close> is the call of
  \<open>fetch_object_content_and_metadata\<close> between replication and enrichment.
\<close>

datatype stage = Replication | Fetch | Enrichment | MetadataCommit | Indexing

text \<open>
  What a run leaves behind, oldest first: each client call with the exception it raised
  (if any), each printed line, and for each stage a coordinator called, the stage with
  whether its result was a success. The trace is an observer's record; the program never
  reads it.
\<close>

datatype event = Call call "exn option" | Print string | Stage stage bool

record 's world =
  cstate :: 's
  trace :: "event list"

definition events_since :: "'s world \<Rightarrow> 's world \<Rightarrow> event list" where
  "events_since w w' = drop (length (trace w)) (trace w')"

fun calls_of :: "event list \<Rightarrow> call list" where
  "calls_of [] = []"
| "calls_of (Call c r # evs) = c # calls_of evs"
| "calls_of (_ # evs) = calls_of evs"

fun prints_of :: "event list \<Rightarrow> string list" where
  "prints_of [] = []"
| "prints_of (Print l # evs) = l # prints_of evs"
| "prints_of (_ # evs) = prints_of evs"

fun stages_of :: "event list \<Rightarrow> (stage \<times> bool) list" where
  "stages_of [] = []"
| "stages_of (Stage st ok # evs) = (st, ok) # stages_of evs"
| "stages_of (_ # evs) = stages_of evs"

definition raised :: "'a + 'b \<Rightarrow> 'a option" where
  "raised r = (case r of Inl e \<Rightarrow> Some e | Inr x \<Rightarrow> None)"

definition invoke :: "call \<Rightarrow> ('s \<Rightarrow> (exn + 'a) \<times> 's) \<Rightarrow> 's world \<Rightarrow> (exn + 'a) \<times> 's world" where
  "invoke c f w =
     (case f (cstate w) of
        (r, s') \<Rightarrow> (r, \<lparr>cstate = s', trace = trace w @ [Call c (raised r)]\<rparr>))"

definition print :: "string \<Rightarrow> 's world \<Rightarrow> 's world" where
  "print line w = w\<lparr>trace := trace w @ [Print line]\<rparr>"

text \<open>
  The body of a \<open>try\<close> block, and any code outside one, is a computation that ends
  with a value (\<open>Inr\<close>) or with the first exception raised in it (\<open>Inl\<close>).
  \<open>except Exception as e\<close> runs its handler for an exception that is an instance of
  \<open>Exception\<close> and returns what the handler returns; any other exception is not
  caught and leaves the function.
\<close>

definition bind_try ::
  "('w \<Rightarrow> (exn + 'a) \<times> 'w) \<Rightarrow> ('a \<Rightarrow> 'w \<Rightarrow> (exn + 'b) \<times> 'w) \<Rightarrow> 'w \<Rightarrow> (exn + 'b) \<times> 'w" where
  "bind_try m f w = (case m w of (Inl e, w') \<Rightarrow> (Inl e, w') | (Inr a, w') \<Rightarrow> f a w')"

definition return_try :: "'a \<Rightarrow> 'w \<Rightarrow> (exn + 'a) \<times> 'w" where
  "return_try a w = (Inr a, w)"

definition except_Exception ::
  "(exn + 'a) \<times> 'w \<Rightarrow> (exn \<Rightarrow> 'w \<Rightarrow> 'a \<times> 'w) \<Rightarrow> (exn + 'a) \<times> 'w" where
  "except_Exception r h =
     (case r of
        (Inl e, w') \<Rightarrow>
          if is_Exception e then (case h e w' of (a, w'') \<Rightarrow> (Inr a, w'')) else (Inl e, w')
      | (Inr a, w') \<Rightarrow> (Inr a, w'))"

section \<open>The stage functions of main.py (lines 43-81)\<close>

definition replicate_object ::
  "'s minio_client \<Rightarrow> string \<Rightarrow> string \<Rightarrow> string \<Rightarrow> 's world \<Rightarrow>
   (exn + bool) \<times> 's world" where
  "replicate_object minio_client source_bucket target_bucket object_key w =
     except_Exception
       (bind_try (invoke (GetObject source_bucket object_key)
                    (get_object minio_client source_bucket object_key)) (\<lambda>source_object.
        bind_try (invoke (StreamStat source_object)
                    (stream_stat_size minio_client source_object)) (\<lambda>st_size.
        bind_try (invoke (PutObject target_bucket object_key source_object st_size)
                    (put_object minio_client target_bucket object_key source_object st_size)) (\<lambda>_.
        return_try True))) w)
       (\<lambda>e w'. (False, print (''Error replicating object: '' @ exn_str e) w'))"

definition fetch_object_content_and_metadata ::
  "'s minio_client \<Rightarrow> string \<Rightarrow> string \<Rightarrow> 's world \<Rightarrow>
   (exn + object_data option) \<times> 's world" where
  "fetch_object_content_and_metadata minio_client bucket object_key w =
     except_Exception
       (bind_try (invoke (GetObject bucket object_key)
                    (get_object minio_client bucket object_key)) (\<lambda>object_data.
        bind_try (invoke (StatObject bucket object_key)
                    (stat_object_metadata minio_client bucket object_key)) (\<lambda>md.
        bind_try (invoke (StreamRead object_data)
                    (stream_read minio_client object_data)) (\<lambda>content.
        return_try (Some \<lparr>od_content = content, od_metadata = md\<rparr>)))) w)
       (\<lambda>e w'. (None, print (''Error fetching object content and metadata: '' @ exn_str e) w'))"

definition process_object_content_for_metadata_enrichment :: "string \<Rightarrow> dict" where
  "process_object_content_for_metadata_enrichment content =
     fmap_of_list [(''example_key'', VStr ''example_value'')]"

definition update_object_metadata_in_minio ::
  "'s minio_client \<Rightarrow> string \<Rightarrow> string \<Rightarrow> dict \<Rightarrow> 's world \<Rightarrow>
   (exn + bool) \<times> 's world" where
  "update_object_metadata_in_minio minio_client bucket object_key md w =
     except_Exception
       (bind_try (invoke (CopyObject bucket object_key (''/'' @ bucket @ ''/'' @ object_key) md)
                    (copy_object minio_client bucket object_key
                       (''/'' @ bucket @ ''/'' @ object_key) md)) (\<lambda>_.
        return_try True) w)
       (\<lambda>e w'. (False, print (''Error updating object metadata: '' @ exn_str e) w'))"

definition index_object_and_metadata_in_weaviate ::
  "'s weaviate_client \<Rightarrow> string \<Rightarrow> string \<Rightarrow> dict \<Rightarrow> 's world \<Rightarrow>
   (exn + bool) \<times> 's world" where
  "index_object_and_metadata_in_weaviate weaviate_client class_name object_key md w =
     except_Exception
       (let data_object = from_minio_model class_name (Object (MinioObject_init object_key md)) None
        in bind_try (invoke (DataObjectCreate (WeaviateClass_dict data_object) class_name)
                       (data_object_create weaviate_client (WeaviateClass_dict data_object)
                          class_name)) (\<lambda>_.
           return_try True) w)
       (\<lambda>e w'. (False,
          print (''Error indexing object and metadata in Weaviate: '' @ exn_str e) w'))"

section \<open>The coordinator of main.py (lines 83-89)\<close>

text \<open>
  \<open>stage st success f\<close> runs the stage function \<open>f\<close> and notes in the trace that the
  coordinator called stage \<open>st\<close> and whether what came back counts as a success.
  For a stage function of main.py that is the value \<open>True\<close> (a value other than \<open>None\<close>
  for the fetch); an exception that leaves the stage function is not a success.
\<close>

definition stage ::
  "stage \<Rightarrow> ('a \<Rightarrow> bool) \<Rightarrow> ('s world \<Rightarrow> 'a \<times> 's world) \<Rightarrow> 's world \<Rightarrow> 'a \<times> 's world" where
  "stage st success f w =
     (case f w of (r, w') \<Rightarrow> (r, w'\<lparr>trace := trace w' @ [Stage st (success r)]\<rparr>))"

definition returned :: "('a \<Rightarrow> bool) \<Rightarrow> exn + 'a \<Rightarrow> bool" where
  "returned p r = (case r of Inl e \<Rightarrow> False | Inr a \<Rightarrow> p a)"

text \<open>
  \<open>handle_minio_event\<close> has no \<open>try\<close>: an exception that leaves a stage function
  leaves the coordinator too. Its result is that exception, or \<open>None\<close> (here \<open>()\<close>).
\<close>

definition handle_minio_event ::
  "'s minio_client \<Rightarrow> 's weaviate_client \<Rightarrow> string \<Rightarrow> string \<Rightarrow> string \<Rightarrow> string \<Rightarrow>
   's world \<Rightarrow> (exn + unit) \<times> 's world" where
  "handle_minio_event minio_client weaviate_client class_name source_bucket target_bucket
     object_key w =
     bind_try (stage Replication (returned id)
                 (replicate_object minio_client source_bucket target_bucket object_key))
       (\<lambda>replicated.
          if replicated then
            bind_try (stage Fetch (returned (\<lambda>r. r \<noteq> None))
                        (fetch_object_content_and_metadata minio_client target_bucket
                           object_key))
              (\<lambda>fetched. case fetched of
                 None \<Rightarrow> return_try ()
               | Some object_data \<Rightarrow>
                   bind_try (stage Enrichment (returned (\<lambda>r. True))
                               (return_try (process_object_content_for_metadata_enrichment
                                              (od_content object_data))))
                     (\<lambda>enriched_metadata.
                        bind_try (stage MetadataCommit (returned id)
                                    (update_object_metadata_in_minio minio_client target_bucket
                                       object_key enriched_metadata))
                          (\<lambda>updated.
                             if updated then
                               bind_try (stage Indexing (returned id)
                                           (index_object_and_metadata_in_weaviate
                                              weaviate_client class_name object_key
                                              enriched_metadata))
                                 (\<lambda>indexed. return_try ())
                             else return_try ())))
          else return_try ()) w"

section \<open>The asynchronous variant of main.py (lines 110-150)\<close>

text \<open>
  \<open>handle_minio_event_async\<close> receives its two managers as arguments and calls three
  methods on them. A manager is the record of these methods; a method acts on the state
  of the external services. \<open>MinioManager\<close> and \<open>WeaviateManager\<close> are the two classes
  of the source, whose methods are placeholders. Each \<open>await\<close> is in sequence within the
  one coroutine.
\<close>

record 's minio_manager =
  mm_replicate_object :: "string \<Rightarrow> string \<Rightarrow> string \<Rightarrow> 's \<Rightarrow> bool \<times> 's"
  mm_fetch_object_content_and_metadata :: "string \<Rightarrow> string \<Rightarrow> 's \<Rightarrow> object_data option \<times> 's"

record 's weaviate_manager =
  wm_index_object :: "string \<Rightarrow> string \<Rightarrow> dict \<Rightarrow> 's \<Rightarrow> bool \<times> 's"

definition MinioManager :: "string \<Rightarrow> string \<Rightarrow> string \<Rightarrow> 's minio_manager" where
  "MinioManager endpoint access_key secret_key =
     \<lparr>mm_replicate_object = (\<lambda>source_bucket target_bucket object_key s. (True, s)),
      mm_fetch_object_content_and_metadata = (\<lambda>bucket object_key s.
        (Some \<lparr>od_content = ''example_content'',
               od_metadata = fmap_of_list [(''example_key'', VStr ''example_value'')]\<rparr>, s))\<rparr>"

definition WeaviateManager :: "string \<Rightarrow> 's weaviate_manager" where
  "WeaviateManager weaviate_endpoint =
     \<lparr>wm_index_object = (\<lambda>class_name object_key md s. (True, s))\<rparr>"

definition await :: "('s \<Rightarrow> 'a \<times> 's) \<Rightarrow> 's world \<Rightarrow> 'a \<times> 's world" where
  "await f w = (case f (cstate w) of (r, s') \<Rightarrow> (r, w\<lparr>cstate := s'\<rparr>))"

definition handle_minio_event_async ::
  "'s minio_manager \<Rightarrow> 's weaviate_manager \<Rightarrow> string \<Rightarrow> string \<Rightarrow> string \<Rightarrow> string \<Rightarrow>
   's world \<Rightarrow> 's world" where
  "handle_minio_event_async minio_manager weaviate_manager class_name source_bucket
     target_bucket object_key w =
     (case stage Replication id
             (await (mm_replicate_object minio_manager source_bucket target_bucket
                        object_key)) w of
        (replication_success, w1) \<Rightarrow>
          if replication_success then
            (case stage Fetch (\<lambda>r. r \<noteq> None)
                    (await (mm_fetch_object_content_and_metadata minio_manager target_bucket
                               object_key)) w1 of
               (Some object_data, w2) \<Rightarrow>
                 (let enriched_metadata = fmap_of_list [(''processed_key'', VStr ''processed_value'')]
                  in case stage Indexing id
                            (await (wm_index_object weaviate_manager class_name object_key
                                       enriched_metadata)) w2 of
                       (index_success, w3) \<Rightarrow>
                         if index_success then print ''Object indexed successfully.'' w3
                         else print ''Failed to index object.'' w3)
             | (None, w2) \<Rightarrow> print ''Failed to fetch object content and metadata.'' w2)
          else print ''Failed to replicate object.'' w1)"

section \<open>The managers of async-main.py (lines 27-86)\<close>

record 's MinioWeaviateManager =
  mwm_minio_client :: "'s minio_client"
  mwm_weaviate_client :: "'s weaviate_client"

definition replicate_object_sync ::
  "'s MinioWeaviateManager \<Rightarrow> string \<Rightarrow> string \<Rightarrow> string \<Rightarrow> 's world \<Rightarrow>
   (exn + bool) \<times> 's world" where
  "replicate_object_sync self source_bucket target_bucket object_key w =
     except_Exception
       (bind_try (invoke (GetObject source_bucket object_key)
                    (get_object (mwm_minio_client self) source_bucket object_key))
          (\<lambda>source_object.
        bind_try (invoke (StreamStat source_object)
                    (stream_stat_size (mwm_minio_client self) source_object)) (\<lambda>st_size.
        bind_try (invoke (PutObject target_bucket object_key source_object st_size)
                    (put_object (mwm_minio_client self) target_bucket object_key source_object
                       st_size)) (\<lambda>_.
        return_try True))) w)
       (\<lambda>e w'. (False, print (''Error replicating object: '' @ exn_str e) w'))"

definition index_object_sync ::
  "'s MinioWeaviateManager \<Rightarrow> string \<Rightarrow> string \<Rightarrow> dict \<Rightarrow> 's world \<Rightarrow>
   (exn + bool) \<times> 's world" where
  "index_object_sync self class_name object_key md w =
     except_Exception
       (let data_object = from_minio_model class_name (Object (MinioObject_init object_key md)) None
        in bind_try (invoke (DataObjectCreate (WeaviateClass_dict data_object) class_name)
                       (data_object_create (mwm_weaviate_client self)
                          (WeaviateClass_dict data_object) class_name)) (\<lambda>_.
           return_try True) w)
       (\<lambda>e w'. (False, print (''Error indexing object in Weaviate: '' @ exn_str e) w'))"

record 's AsyncMinioWeaviateManager =
  minio_endpoint :: string
  weaviate_endpoint :: string
  session :: "'s client_session"

definition replicate_object_async ::
  "'s AsyncMinioWeaviateManager \<Rightarrow> string \<Rightarrow> string \<Rightarrow> string \<Rightarrow> 's world \<Rightarrow>
   (exn + bool) \<times> 's world" where
  "replicate_object_async self source_bucket target_bucket object_key w =
     except_Exception
       (let object_url = minio_endpoint self @ ''/'' @ source_bucket @ ''/'' @ object_key
        in bind_try (invoke (SessionGet object_url) (session_get (session self) object_url))
             (\<lambda>response.
               if status response = 200 then
                 bind_try (invoke (ResponseRead response)
                             (response_read (session self) response)) (\<lambda>object_data.
                 let target_url = minio_endpoint self @ ''/'' @ target_bucket @ ''/'' @ object_key
                 in bind_try (invoke (SessionPut target_url object_data)
                                (session_put (session self) target_url object_data))
                      (\<lambda>put_response. return_try (status put_response = 200)))
               else return_try False) w)
       (\<lambda>e w'. (False, print (''Error replicating object asynchronously: '' @ exn_str e) w'))"


section \<open>An in-memory object store and index, for concrete runs\<close>

text \<open>
  A small implementation of the two client interfaces: buckets hold objects (data and
  user metadata) under a key, the index holds the records created so far. \<open>get_object\<close>
  and \<open>stat_object\<close> raise for a missing key, \<open>put_object\<close> (called without metadata)
  writes the data with empty metadata, \<open>copy_object\<close> onto the same key replaces the
  metadata, and \<open>data_object.create\<close> without a uuid adds a record under a new id, as
  the real call does. The etag of an object is a function of its data (here the data).
\<close>

record stored =
  st_data :: string
  st_metadata :: dict

record services =
  objects :: "(string \<times> string, stored) fmap"
  index_records :: "(string \<times> dict) list"

definition etag_of :: "stored \<Rightarrow> string" where
  "etag_of obj = st_data obj"

definition no_such_key :: exn where
  "no_such_key = Exn ''S3Error'' ''NoSuchKey''"

definition mem_minio :: "services minio_client" where
  "mem_minio =
     \<lparr>get_object = (\<lambda>bucket object_key s.
        case fmlookup (objects s) (bucket, object_key) of
          None \<Rightarrow> (Inl no_such_key, s)
        | Some obj \<Rightarrow> (Inr (Stream (st_data obj)), s)),
      stream_stat_size = (\<lambda>str s. case str of Stream d \<Rightarrow> (Inr (int (length d)), s)),
      put_object = (\<lambda>bucket object_key str n s.
        case str of Stream d \<Rightarrow>
          (Inr (), s\<lparr>objects := fmupd (bucket, object_key)
                                  \<lparr>st_data = d, st_metadata = fmempty\<rparr> (objects s)\<rparr>)),
      stat_object_metadata = (\<lambda>bucket object_key s.
        case fmlookup (objects s) (bucket, object_key) of
          None \<Rightarrow> (Inl no_such_key, s)
        | Some obj \<Rightarrow> (Inr (st_metadata obj), s)),
      stream_read = (\<lambda>str s. case str of Stream d \<Rightarrow> (Inr d, s)),
      copy_object = (\<lambda>bucket object_key src md s.
        case fmlookup (objects s) (bucket, object_key) of
          None \<Rightarrow> (Inl no_such_key, s)
        | Some obj \<Rightarrow>
            (Inr (), s\<lparr>objects := fmupd (bucket, object_key) (obj\<lparr>st_metadata := md\<rparr>)
                                    (objects s)\<rparr>))\<rparr>"

definition mem_weaviate :: "services weaviate_client" where
  "mem_weaviate =
     \<lparr>data_object_create = (\<lambda>obj class_name s.
        (Inr (replicate (Suc (length (index_records s))) (CHR ''u'')),
         s\<lparr>index_records := index_records s @ [(class_name, obj)]\<rparr>))\<rparr>"

text \<open>A world with an empty trace, and a store that holds one object in bucket \<open>raw\<close>.\<close>

definition start :: "'s \<Rightarrow> 's world" where
  "start s = \<lparr>cstate = s, trace = []\<rparr>"

definition store0 :: services where
  "store0 =
     \<lparr>objects = fmap_of_list [((''raw'', ''img1''), \<lparr>st_data = ''pixels'', st_metadata = fmempty\<rparr>)],
      index_records = []\<rparr>"

text \<open>
  More clients for concrete runs: a store and an index that refuse every call, a store
  whose \<open>copy_object\<close> reports a failed precondition, clients and a session in which
  every call is cancelled
  (\<open>asyncio.CancelledError\<close>), and aiohttp sessions that answer every GET with a given
  status or refuse every request. \<open>manager\<close> is the \<open>AsyncMinioWeaviateManager\<close> that
  \<open>main()\<close> of async-main.py builds.
\<close>

definition empty_store :: services where
  "empty_store = \<lparr>objects = fmempty, index_records = []\<rparr>"

definition refused :: exn where
  "refused = Exn ''ConnectionError'' ''connection refused''"

definition down_minio :: "'s minio_client" where
  "down_minio =
     \<lparr>get_object = (\<lambda>bucket object_key s. (Inl refused, s)),
      stream_stat_size = (\<lambda>str s. (Inl refused, s)),
      put_object = (\<lambda>bucket object_key str n s. (Inl refused, s)),
      stat_object_metadata = (\<lambda>bucket object_key s. (Inl refused, s)),
      stream_read = (\<lambda>str s. (Inl refused, s)),
      copy_object = (\<lambda>bucket object_key src md s. (Inl refused, s))\<rparr>"

definition down_weaviate :: "'s weaviate_client" where
  "down_weaviate = \<lparr>data_object_create = (\<lambda>obj class_name s. (Inl refused, s))\<rparr>"

definition precondition_failed :: exn where
  "precondition_failed = Exn ''S3Error'' ''PreconditionFailed''"

definition conflict_minio :: "services minio_client" where
  "conflict_minio =
     mem_minio\<lparr>copy_object := (\<lambda>bucket object_key src md s. (Inl precondition_failed, s))\<rparr>"

definition cancelled :: exn where
  "cancelled = BaseExn ''CancelledError'' []"

definition cancelled_minio :: "'s minio_client" where
  "cancelled_minio =
     \<lparr>get_object = (\<lambda>bucket object_key s. (Inl cancelled, s)),
      stream_stat_size = (\<lambda>str s. (Inl cancelled, s)),
      put_object = (\<lambda>bucket object_key str n s. (Inl cancelled, s)),
      stat_object_metadata = (\<lambda>bucket object_key s. (Inl cancelled, s)),
      stream_read = (\<lambda>str s. (Inl cancelled, s)),
      copy_object = (\<lambda>bucket object_key src md s. (Inl cancelled, s))\<rparr>"

definition cancelled_weaviate :: "'s weaviate_client" where
  "cancelled_weaviate = \<lparr>data_object_create = (\<lambda>obj class_name s. (Inl cancelled, s))\<rparr>"

definition cancelled_session :: "'s client_session" where
  "cancelled_session =
     \<lparr>session_get = (\<lambda>url s. (Inl cancelled, s)),
      response_read = (\<lambda>response s. (Inl cancelled, s)),
      session_put = (\<lambda>url d s. (Inl cancelled, s)),
      session_post = (\<lambda>url d s. (Inl cancelled, s))\<rparr>"

definition status_session :: "int \<Rightarrow> 's client_session" where
  "status_session n =
     \<lparr>session_get = (\<lambda>url s. (Inr (Response n ''data''), s)),
      response_read = (\<lambda>response s. (Inr (body response), s)),
      session_put = (\<lambda>url d s. (Inr (Response 200 []), s)),
      session_post = (\<lambda>url d s. (Inr (Response 200 []), s))\<rparr>"

definition down_session :: "'s client_session" where
  "down_session =
     \<lparr>session_get = (\<lambda>url s. (Inl refused, s)),
      response_read = (\<lambda>response s. (Inl refused, s)),
      session_put = (\<lambda>url d s. (Inl refused, s)),
      session_post = (\<lambda>url d s. (Inl refused, s))\<rparr>"

definition manager :: "services client_session \<Rightarrow> services AsyncMinioWeaviateManager" where
  "manager sess =
     \<lparr>minio_endpoint = ''http://minio.local'', weaviate_endpoint = ''http://weaviate.local'',
      session = sess\<rparr>"

section \<open>Reading a trace\<close>

text \<open>
  The text each stage function of main.py prints before the exception text (lines 49,
  59, 71 and 80); the enrichment function prints nothing.
\<close>

fun stage_message :: "stage \<Rightarrow> string" where
  "stage_message Replication = ''Error replicating object: ''"
| "stage_message Fetch = ''Error fetching object content and metadata: ''"
| "stage_message Enrichment = []"
| "stage_message MetadataCommit = ''Error updating object metadata: ''"
| "stage_message Indexing = ''Error indexing object and metadata in Weaviate: ''"

text \<open>
  \<open>gated order log\<close>: the stages of \<open>log\<close> are the first stages of \<open>order\<close>, in that
  order, and every stage that is followed by another one was a success.
\<close>

fun gated :: "stage list \<Rightarrow> (stage \<times> bool) list \<Rightarrow> bool" where
  "gated order [] = True"
| "gated [] (x # log) = False"
| "gated (st # order) ((st', ok) # log) = (st' = st \<and> (ok \<or> log = []) \<and> gated order log)"

text \<open>
  How a call of a stage function ended: it returned a success, it returned a failure,
  or an exception left it.
\<close>

datatype ending = Succeeded | Failed | Propagated exn

definition ending_of :: "('a \<Rightarrow> bool) \<Rightarrow> exn + 'a \<Rightarrow> ending" where
  "ending_of p r = (case r of Inl e \<Rightarrow> Propagated e | Inr a \<Rightarrow> if p a then Succeeded else Failed)"

text \<open>
  The events of one call of a stage function that wraps client calls in
  \<open>try\<close>/\<open>except Exception\<close>: calls that return, each of a kind \<open>allowed\<close>, and then
  either nothing more (the function returns success), or one call that raises an
  instance of \<open>Exception\<close> followed by the printed line (the function returns failure),
  or one call that raises another exception and nothing more (the exception leaves the
  function).
\<close>

fun stage_run :: "string \<Rightarrow> (call \<Rightarrow> bool) \<Rightarrow> ending \<Rightarrow> event list \<Rightarrow> bool" where
  "stage_run msg allowed en [] = (en = Succeeded)"
| "stage_run msg allowed en (Call c None # evs) = (allowed c \<and> stage_run msg allowed en evs)"
| "stage_run msg allowed en [Call c (Some e), Print line] =
     (allowed c \<and> is_Exception e \<and> en = Failed \<and> line = msg @ exn_str e)"
| "stage_run msg allowed en [Call c (Some e)] =
     (allowed c \<and> \<not> is_Exception e \<and> en = Propagated e)"
| "stage_run msg allowed en evs = False"

definition no_copy :: "call \<Rightarrow> bool" where
  "no_copy c = (\<not> is_CopyObject c)"

definition the_copy :: "string \<Rightarrow> string \<Rightarrow> call" where
  "the_copy bucket object_key =
     CopyObject bucket object_key (''/'' @ bucket @ ''/'' @ object_key)
       (fmap_of_list [(''example_key'', VStr ''example_value'')])"

text \<open>
  The shapes of the events of one call of \<open>handle_minio_event\<close>, with its result: the
  four ways it returns, and the four stages an exception can leave it from.
\<close>

inductive pipeline_shape :: "string \<Rightarrow> string \<Rightarrow> exn + unit \<Rightarrow> event list \<Rightarrow> bool"
  for tb k where
  stop_replication:
    "stage_run (stage_message Replication) no_copy Failed e1 \<Longrightarrow>
     pipeline_shape tb k (Inr ()) (e1 @ [Stage Replication False])"
| stop_fetch:
    "stage_run (stage_message Replication) no_copy Succeeded e1 \<Longrightarrow>
     stage_run (stage_message Fetch) no_copy Failed e2 \<Longrightarrow>
     pipeline_shape tb k (Inr ()) (e1 @ Stage Replication True # e2 @ [Stage Fetch False])"
| stop_commit:
    "stage_run (stage_message Replication) no_copy Succeeded e1 \<Longrightarrow>
     stage_run (stage_message Fetch) no_copy Succeeded e2 \<Longrightarrow>
     is_Exception e \<Longrightarrow>
     pipeline_shape tb k (Inr ()) (e1 @ Stage Replication True # e2 @ Stage Fetch True #
        Stage Enrichment True # Call (the_copy tb k) (Some e) #
        [Print (stage_message MetadataCommit @ exn_str e), Stage MetadataCommit False])"
| through:
    "stage_run (stage_message Replication) no_copy Succeeded e1 \<Longrightarrow>
     stage_run (stage_message Fetch) no_copy Succeeded e2 \<Longrightarrow>
     stage_run (stage_message Indexing) no_copy (if ok4 then Succeeded else Failed) e4 \<Longrightarrow>
     pipeline_shape tb k (Inr ()) (e1 @ Stage Replication True # e2 @ Stage Fetch True #
        Stage Enrichment True # Call (the_copy tb k) None # Stage MetadataCommit True #
        e4 @ [Stage Indexing ok4])"
| leave_replication:
    "stage_run (stage_message Replication) no_copy (Propagated e) e1 \<Longrightarrow>
     pipeline_shape tb k (Inl e) (e1 @ [Stage Replication False])"
| leave_fetch:
    "stage_run (stage_message Replication) no_copy Succeeded e1 \<Longrightarrow>
     stage_run (stage_message Fetch) no_copy (Propagated e) e2 \<Longrightarrow>
     pipeline_shape tb k (Inl e) (e1 @ Stage Replication True # e2 @ [Stage Fetch False])"
| leave_commit:
    "stage_run (stage_message Replication) no_copy Succeeded e1 \<Longrightarrow>
     stage_run (stage_message Fetch) no_copy Succeeded e2 \<Longrightarrow>
     \<not> is_Exception e \<Longrightarrow>
     pipeline_shape tb k (Inl e) (e1 @ Stage Replication True # e2 @ Stage Fetch True #
        Stage Enrichment True # [Call (the_copy tb k) (Some e), Stage MetadataCommit False])"
| leave_indexing:
    "stage_run (stage_message Replication) no_copy Succeeded e1 \<Longrightarrow>
     stage_run (stage_message Fetch) no_copy Succeeded e2 \<Longrightarrow>
     stage_run (stage_message Indexing) no_copy (Propagated e) e4 \<Longrightarrow>
     pipeline_shape tb k (Inl e) (e1 @ Stage Replication True # e2 @ Stage Fetch True #
        Stage Enrichment True # Call (the_copy tb k) None # Stage MetadataCommit True #
        e4 @ [Stage Indexing False])"

text \<open>
  What a stage function that makes a single client call returns and prints, given the
  exception the call raised (if any) and the text the function prints before it.
\<close>

definition caught_result :: "exn option \<Rightarrow> exn + bool" where
  "caught_result x =
     (case x of None \<Rightarrow> Inr True | Some e \<Rightarrow> if is_Exception e then Inr False else Inl e)"

definition caught_events :: "string \<Rightarrow> exn option \<Rightarrow> event list" where
  "caught_events msg x =
     (case x of None \<Rightarrow> []
      | Some e \<Rightarrow> if is_Exception e then [Print (msg @ exn_str e)] else [])"


text \<open>
  The store after one replication of \<open>raw/img1\<close> to bucket \<open>processed\<close>: the target holds
  an object identical to the source.
\<close>

definition store1 :: services where
  "store1 =
     \<lparr>objects = fmap_of_list
        [((''processed'', ''img1''), \<lparr>st_data = ''pixels'', st_metadata = fmempty\<rparr>),
         ((''raw'', ''img1''), \<lparr>st_data = ''pixels'', st_metadata = fmempty\<rparr>)],
      index_records = []\<rparr>"

text \<open>
  The dictionary \<open>data_object.dict()\<close> that the indexing functions send for a key and a
  metadata mapping, written out.
\<close>

definition index_record :: "string \<Rightarrow> string \<Rightarrow> dict \<Rightarrow> dict" where
  "index_record class_name object_key md =
     fmap_of_list
       [(''class_name'', VStr class_name),
        (''properties'', VDict (fmap_of_list [(''key'', VStr object_key), (''metadata'', VDict md)])),
        (''id'', VNone), (''context'', VDict fmempty)]"

section \<open>Building the index record\<close>

lemma map_of_filter_keys:
  "map_of (filter (\<lambda>(k, v). P k) xs) k = (if P k then map_of xs k else None)"
  by (induction xs) auto

lemma dict_exclude_unset_lookup:
  "fmlookup (dict_exclude_unset m) k =
     (if k \<in> model_fields_set m then map_of (model_fields m) k else None)"
  by (simp add: dict_exclude_unset_def fmlookup_of_list map_of_filter_keys)

text \<open>
  C9. For every model \<open>m\<close> (a \<open>MinioObject\<close> in particular), class name \<open>c\<close> and optional
  \<open>additional_props\<close> \<open>d\<close>, \<open>from_minio_model\<close> returns a record whose class name is
  \<open>c\<close>, whose id is \<open>None\<close>, and whose properties are the dictionary of the explicitly
  set fields of \<open>m\<close> updated with \<open>d\<close>: a key of \<open>d\<close> has the value \<open>d\<close> gives it, any
  other key has the value of the field of that name if the field was set, and is absent
  otherwise.
\<close>

theorem from_minio_model_record:
  "wc_class_name (from_minio_model c m d) = c \<and>
   wc_id (from_minio_model c m d) = None \<and>
   wc_properties (from_minio_model c m d) =
     dict_exclude_unset m ++\<^sub>f (case d of None \<Rightarrow> fmempty | Some a \<Rightarrow> a) \<and>
   fmlookup (wc_properties (from_minio_model c m d)) k =
     (case (case d of None \<Rightarrow> None | Some a \<Rightarrow> fmlookup a k) of
        Some v \<Rightarrow> Some v
      | None \<Rightarrow> if k \<in> model_fields_set m then map_of (model_fields m) k else None)"
  by (auto simp add: from_minio_model_def WeaviateClass_init_def Let_def
        dict_exclude_unset_lookup fmlookup_dom_iff split: option.splits)

section \<open>Traces of the stage functions\<close>

lemmas try_defs =
  except_Exception_def bind_try_def return_try_def invoke_def print_def raised_def

lemma calls_of_append: "calls_of (xs @ ys) = calls_of xs @ calls_of ys"
  by (induction xs rule: calls_of.induct) auto


lemma stages_of_append: "stages_of (xs @ ys) = stages_of xs @ stages_of ys"
  by (induction xs rule: stages_of.induct) auto

lemma events_since_append: "events_since w \<lparr>cstate = s, trace = trace w @ evs\<rparr> = evs"
  by (simp add: events_since_def)

lemma call_in_calls_of: "Call c r \<in> set evs \<Longrightarrow> c \<in> set (calls_of evs)"
  by (induction evs rule: calls_of.induct) auto

lemma stage_run_stages: "stage_run msg a en evs \<Longrightarrow> stages_of evs = []"
  by (induction msg a en evs rule: stage_run.induct) auto


lemma stage_run_calls: "stage_run msg a en evs \<Longrightarrow> list_all a (calls_of evs)"
  by (induction msg a en evs rule: stage_run.induct) auto


lemma stage_run_no_copy:
  assumes "stage_run msg no_copy en evs"
  shows "filter is_CopyObject (calls_of evs) = []"
    and "Call (CopyObject b k src md) r \<notin> set evs"
proof -
  from assms have all: "list_all no_copy (calls_of evs)"
    by (rule stage_run_calls)
  then show "filter is_CopyObject (calls_of evs) = []"
    by (simp add: list_all_iff filter_empty_conv no_copy_def)
  show "Call (CopyObject b k src md) r \<notin> set evs"
  proof
    assume "Call (CopyObject b k src md) r \<in> set evs"
    then have "CopyObject b k src md \<in> set (calls_of evs)"
      by (rule call_in_calls_of)
    with all show False
      by (auto simp: list_all_iff no_copy_def)
  qed
qed



lemma replicate_object_run:
  "\<exists>r s' evs. replicate_object mc sb tb k w = (r, \<lparr>cstate = s', trace = trace w @ evs\<rparr>) \<and>
     stage_run (stage_message Replication) no_copy (ending_of id r) evs"
  unfolding replicate_object_def try_defs no_copy_def ending_of_def
  by (auto split: prod.splits sum.splits)

lemma fetch_run:
  "\<exists>r s' evs. fetch_object_content_and_metadata mc b k w =
       (r, \<lparr>cstate = s', trace = trace w @ evs\<rparr>) \<and>
     stage_run (stage_message Fetch) no_copy (ending_of (\<lambda>r. r \<noteq> None) r) evs"
  unfolding fetch_object_content_and_metadata_def try_defs no_copy_def ending_of_def
  by (auto split: prod.splits sum.splits)

lemma update_run:
  "\<exists>x s'. update_object_metadata_in_minio mc b k md w =
     (caught_result x, \<lparr>cstate = s', trace = trace w @
        Call (CopyObject b k (''/'' @ b @ ''/'' @ k) md) x #
        caught_events (stage_message MetadataCommit) x\<rparr>)"
  unfolding update_object_metadata_in_minio_def try_defs caught_result_def caught_events_def
  by (auto split: prod.splits sum.splits)

lemma index_run:
  "\<exists>r s' evs. index_object_and_metadata_in_weaviate wc cn k md w =
       (r, \<lparr>cstate = s', trace = trace w @ evs\<rparr>) \<and>
     stage_run (stage_message Indexing) no_copy (ending_of id r) evs"
  unfolding index_object_and_metadata_in_weaviate_def try_defs no_copy_def ending_of_def
  by (auto split: prod.splits sum.splits simp: Let_def)

section \<open>The trace of the coordinator\<close>

lemma handle_minio_event_shape:
  "\<exists>res s' evs. handle_minio_event mc wc cn sb tb k w =
       (res, \<lparr>cstate = s', trace = trace w @ evs\<rparr>) \<and>
     pipeline_shape tb k res evs"
proof -
  let ?md = "fmap_of_list [(''example_key'', VStr ''example_value'')]"
  obtain r1 s1 e1 where
    R: "replicate_object mc sb tb k w = (r1, \<lparr>cstate = s1, trace = trace w @ e1\<rparr>)"
    and R': "stage_run (stage_message Replication) no_copy (ending_of id r1) e1"
    using replicate_object_run[of mc sb tb k w] by blast
  have SR: "stage Replication (returned id) (replicate_object mc sb tb k) w =
      (r1, \<lparr>cstate = s1, trace = trace w @ e1 @ [Stage Replication (returned id r1)]\<rparr>)"
    using R by (simp add: stage_def)
  consider (leave) e where "r1 = Inl e" | (stop) "r1 = Inr False" | (go) "r1 = Inr True"
    by (cases r1) auto
  then show ?thesis
  proof cases
    case leave
    with SR have "handle_minio_event mc wc cn sb tb k w =
        (Inl e, \<lparr>cstate = s1, trace = trace w @ e1 @ [Stage Replication False]\<rparr>)"
      unfolding handle_minio_event_def bind_try_def by (simp add: returned_def)
    moreover have "pipeline_shape tb k (Inl e) (e1 @ [Stage Replication False])"
      using R' leave
      by (auto intro: leave_replication simp: ending_of_def simp del: stage_message.simps)
    ultimately show ?thesis by blast
  next
    case stop
    with SR have "handle_minio_event mc wc cn sb tb k w =
        (Inr (), \<lparr>cstate = s1, trace = trace w @ e1 @ [Stage Replication False]\<rparr>)"
      unfolding handle_minio_event_def bind_try_def return_try_def by (simp add: returned_def)
    moreover have "pipeline_shape tb k (Inr ()) (e1 @ [Stage Replication False])"
      using R' stop
      by (auto intro: stop_replication simp: ending_of_def simp del: stage_message.simps)
    ultimately show ?thesis by blast
  next
    case go
    from R' go have R1: "stage_run (stage_message Replication) no_copy Succeeded e1"
      by (simp add: ending_of_def del: stage_message.simps)
    let ?w1 = "\<lparr>cstate = s1, trace = trace w @ e1 @ [Stage Replication True]\<rparr>"
    obtain r2 s2 e2 where
      F: "fetch_object_content_and_metadata mc tb k ?w1 =
            (r2, \<lparr>cstate = s2, trace = trace ?w1 @ e2\<rparr>)"
      and F': "stage_run (stage_message Fetch) no_copy (ending_of (\<lambda>r. r \<noteq> None) r2) e2"
      using fetch_run[of mc tb k ?w1] by blast
    have SF: "stage Fetch (returned (\<lambda>r. r \<noteq> None))
        (fetch_object_content_and_metadata mc tb k) ?w1 =
        (r2, \<lparr>cstate = s2, trace = trace w @ e1 @ Stage Replication True # e2 @
               [Stage Fetch (returned (\<lambda>r. r \<noteq> None) r2)]\<rparr>)"
      using F by (simp add: stage_def)
    consider (leave2) e where "r2 = Inl e" | (stop2) "r2 = Inr None"
      | (go2) od where "r2 = Inr (Some od)"
      by (cases r2) auto
    then show ?thesis
    proof cases
      case leave2
      with SR SF go have "handle_minio_event mc wc cn sb tb k w =
          (Inl e, \<lparr>cstate = s2,
             trace = trace w @ e1 @ Stage Replication True # e2 @ [Stage Fetch False]\<rparr>)"
        unfolding handle_minio_event_def bind_try_def by (simp add: returned_def)
      moreover have "pipeline_shape tb k (Inl e)
          (e1 @ Stage Replication True # e2 @ [Stage Fetch False])"
        using R1 F' leave2
        by (auto intro: leave_fetch simp: ending_of_def simp del: stage_message.simps)
      ultimately show ?thesis by blast
    next
      case stop2
      with SR SF go have "handle_minio_event mc wc cn sb tb k w =
          (Inr (), \<lparr>cstate = s2,
             trace = trace w @ e1 @ Stage Replication True # e2 @ [Stage Fetch False]\<rparr>)"
        unfolding handle_minio_event_def bind_try_def return_try_def
        by (simp add: returned_def)
      moreover have "pipeline_shape tb k (Inr ())
          (e1 @ Stage Replication True # e2 @ [Stage Fetch False])"
        using R1 F' stop2
        by (auto intro: stop_fetch simp: ending_of_def simp del: stage_message.simps)
      ultimately show ?thesis by blast
    next
      case go2
      from F' go2 have F1: "stage_run (stage_message Fetch) no_copy Succeeded e2"
        by (simp add: ending_of_def del: stage_message.simps)
      let ?t2 = "trace w @ e1 @ Stage Replication True # e2 @ [Stage Fetch True]"
      let ?w2 = "\<lparr>cstate = s2, trace = ?t2\<rparr>"
      let ?w3 = "\<lparr>cstate = s2, trace = ?t2 @ [Stage Enrichment True]\<rparr>"
      have SE: "stage Enrichment (returned (\<lambda>r. True))
          (return_try (process_object_content_for_metadata_enrichment (od_content od))) ?w2 =
          (Inr ?md, ?w3)"
        by (simp add: stage_def return_try_def returned_def
              process_object_content_for_metadata_enrichment_def)
      obtain x s3 where
        U: "update_object_metadata_in_minio mc tb k ?md ?w3 =
              (caught_result x, \<lparr>cstate = s3, trace = trace ?w3 @ Call (the_copy tb k) x #
                 caught_events (stage_message MetadataCommit) x\<rparr>)"
        using update_run[of mc tb k ?md ?w3] unfolding the_copy_def by blast
      have SU: "stage MetadataCommit (returned id) (update_object_metadata_in_minio mc tb k ?md)
          ?w3 =
          (caught_result x, \<lparr>cstate = s3, trace = ?t2 @ Stage Enrichment True #
             Call (the_copy tb k) x # caught_events (stage_message MetadataCommit) x @
             [Stage MetadataCommit (returned id (caught_result x))]\<rparr>)"
        using U by (simp add: stage_def)
      consider (ok3) "x = None" | (fail3) e where "x = Some e" "is_Exception e"
        | (leave3) e where "x = Some e" "\<not> is_Exception e"
        by (cases x) auto
      then show ?thesis
      proof cases
        case fail3
        with SR SF SE SU go go2 have "handle_minio_event mc wc cn sb tb k w =
          (Inr (), \<lparr>cstate = s3, trace = trace w @ e1 @ Stage Replication True # e2 @
             Stage Fetch True # Stage Enrichment True # Call (the_copy tb k) (Some e) #
             [Print (stage_message MetadataCommit @ exn_str e), Stage MetadataCommit False]\<rparr>)"
          unfolding handle_minio_event_def bind_try_def return_try_def
          by (simp add: returned_def caught_result_def caught_events_def)
        moreover have "pipeline_shape tb k (Inr ()) (e1 @ Stage Replication True # e2 @
             Stage Fetch True # Stage Enrichment True # Call (the_copy tb k) (Some e) #
             [Print (stage_message MetadataCommit @ exn_str e), Stage MetadataCommit False])"
          using R1 F1 fail3(2) by (rule stop_commit)
        ultimately show ?thesis by blast
      next
        case leave3
        with SR SF SE SU go go2 have "handle_minio_event mc wc cn sb tb k w =
          (Inl e, \<lparr>cstate = s3, trace = trace w @ e1 @ Stage Replication True # e2 @
             Stage Fetch True # Stage Enrichment True #
             [Call (the_copy tb k) (Some e), Stage MetadataCommit False]\<rparr>)"
          unfolding handle_minio_event_def bind_try_def return_try_def
          by (simp add: returned_def caught_result_def caught_events_def)
        moreover have "pipeline_shape tb k (Inl e) (e1 @ Stage Replication True # e2 @
             Stage Fetch True # Stage Enrichment True #
             [Call (the_copy tb k) (Some e), Stage MetadataCommit False])"
          using R1 F1 leave3(2) by (rule leave_commit)
        ultimately show ?thesis by blast
      next
        case ok3
        let ?t4 = "?t2 @ Stage Enrichment True # Call (the_copy tb k) None #
                     [Stage MetadataCommit True]"
        let ?w4 = "\<lparr>cstate = s3, trace = ?t4\<rparr>"
        have SU': "stage MetadataCommit (returned id)
            (update_object_metadata_in_minio mc tb k ?md) ?w3 = (Inr True, ?w4)"
          using SU ok3 by (simp add: returned_def caught_result_def caught_events_def)
        obtain r4 s4 e4 where
          I: "index_object_and_metadata_in_weaviate wc cn k ?md ?w4 =
                (r4, \<lparr>cstate = s4, trace = trace ?w4 @ e4\<rparr>)"
          and I': "stage_run (stage_message Indexing) no_copy (ending_of id r4) e4"
          using index_run[of wc cn k ?md ?w4] by blast
        have SI: "stage Indexing (returned id)
            (index_object_and_metadata_in_weaviate wc cn k ?md) ?w4 =
            (r4, \<lparr>cstate = s4, trace = ?t4 @ e4 @ [Stage Indexing (returned id r4)]\<rparr>)"
          using I by (simp add: stage_def)
        show ?thesis
        proof (cases r4)
          case (Inl e)
          with SR SF SE SU' SI go go2 have "handle_minio_event mc wc cn sb tb k w =
            (Inl e, \<lparr>cstate = s4, trace = trace w @ e1 @ Stage Replication True # e2 @
               Stage Fetch True # Stage Enrichment True # Call (the_copy tb k) None #
               Stage MetadataCommit True # e4 @ [Stage Indexing False]\<rparr>)"
            unfolding handle_minio_event_def bind_try_def return_try_def
            by (simp add: returned_def)
          moreover have "pipeline_shape tb k (Inl e) (e1 @ Stage Replication True # e2 @
               Stage Fetch True # Stage Enrichment True # Call (the_copy tb k) None #
               Stage MetadataCommit True # e4 @ [Stage Indexing False])"
            using R1 F1 I' Inl
            by (auto intro: leave_indexing simp: ending_of_def simp del: stage_message.simps)
          ultimately show ?thesis by blast
        next
          case (Inr ok4)
          with SR SF SE SU' SI go go2 have "handle_minio_event mc wc cn sb tb k w =
            (Inr (), \<lparr>cstate = s4, trace = trace w @ e1 @ Stage Replication True # e2 @
               Stage Fetch True # Stage Enrichment True # Call (the_copy tb k) None #
               Stage MetadataCommit True # e4 @ [Stage Indexing ok4]\<rparr>)"
            unfolding handle_minio_event_def bind_try_def return_try_def
            by (simp add: returned_def)
          moreover have "pipeline_shape tb k (Inr ()) (e1 @ Stage Replication True # e2 @
               Stage Fetch True # Stage Enrichment True # Call (the_copy tb k) None #
               Stage MetadataCommit True # e4 @ [Stage Indexing ok4])"
            using R1 F1 I' Inr
            by (auto intro: through simp: ending_of_def simp del: stage_message.simps)
          ultimately show ?thesis by blast
        qed
      qed
    qed
  qed
qed

lemma handle_minio_event_events:
  "pipeline_shape tb k (fst (handle_minio_event mc wc cn sb tb k w))
     (events_since w (snd (handle_minio_event mc wc cn sb tb k w)))"
proof -
  obtain res s' evs where
    "handle_minio_event mc wc cn sb tb k w = (res, \<lparr>cstate = s', trace = trace w @ evs\<rparr>)"
    and "pipeline_shape tb k res evs"
    using handle_minio_event_shape[of mc wc cn sb tb k w] by blast
  then show ?thesis
    by (simp add: events_since_append)
qed

lemmas model_defs =
  from_minio_model_def dict_exclude_unset_def MinioObject_init_def MinioObject_fields_def
  WeaviateClass_init_def WeaviateClass_dict_def opt_str_def opt_int_def opt_dict_def Let_def

lemmas stage_defs =
  replicate_object_def fetch_object_content_and_metadata_def
  process_object_content_for_metadata_enrichment_def update_object_metadata_in_minio_def
  index_object_and_metadata_in_weaviate_def stage_def returned_def

lemmas fixture_defs =
  mem_minio_def mem_weaviate_def start_def store0_def empty_store_def no_such_key_def
  refused_def down_minio_def down_weaviate_def precondition_failed_def conflict_minio_def
  status_session_def down_session_def manager_def cancelled_def
  cancelled_minio_def cancelled_weaviate_def cancelled_session_def

lemma sync_stage_log:
  "stages_of (events_since w (snd (handle_minio_event mc wc cn sb tb k w))) \<in>
     {[(Replication, False)],
      [(Replication, True), (Fetch, False)],
      [(Replication, True), (Fetch, True), (Enrichment, True), (MetadataCommit, False)],
      [(Replication, True), (Fetch, True), (Enrichment, True), (MetadataCommit, True),
       (Indexing, False)],
      [(Replication, True), (Fetch, True), (Enrichment, True), (MetadataCommit, True),
       (Indexing, True)]}"
  using handle_minio_event_events[of tb k mc wc cn sb w]
proof cases
  case (through e1 e2 ok4 e4)
  then show ?thesis
    by (cases ok4) (simp_all add: stages_of_append stage_run_stages)
qed (simp_all add: stages_of_append stage_run_stages)

lemma async_stage_log:
  "stages_of (events_since w (handle_minio_event_async mm wm cn sb tb k w)) \<in>
     {[(Replication, False)],
      [(Replication, True), (Fetch, False)],
      [(Replication, True), (Fetch, True), (Indexing, False)],
      [(Replication, True), (Fetch, True), (Indexing, True)]}"
proof -
  obtain r1 s1 where A: "mm_replicate_object mm sb tb k (cstate w) = (r1, s1)"
    by fastforce
  obtain r2 s2 where B: "mm_fetch_object_content_and_metadata mm tb k s1 = (r2, s2)"
    by fastforce
  obtain r3 s3 where C: "wm_index_object wm cn k
      (fmap_of_list [(''processed_key'', VStr ''processed_value'')]) s2 = (r3, s3)"
    by fastforce
  from A B C show ?thesis
    unfolding handle_minio_event_async_def stage_def await_def print_def events_since_def
    by (cases r1; cases r2; cases r3) simp_all
qed

text \<open>
  C1, as the code has it. For every event, \<open>handle_minio_event\<close> calls the stages in the
  order Replication, Fetch, Enrichment, Metadata Commit, Indexing, and
  \<open>handle_minio_event_async\<close> calls Replication, Fetch and Indexing (it has no
  enrichment call and no Metadata Commit). In both a stage is called only when the stage
  before it was a success, and after a failure no further stage is called: the stage log
  of a run is one of the lists below.
\<close>

theorem coordinators_gate_stages:
  "stages_of (events_since w (snd (handle_minio_event mc wc cn sb tb k w))) \<in>
     {[(Replication, False)],
      [(Replication, True), (Fetch, False)],
      [(Replication, True), (Fetch, True), (Enrichment, True), (MetadataCommit, False)],
      [(Replication, True), (Fetch, True), (Enrichment, True), (MetadataCommit, True),
       (Indexing, False)],
      [(Replication, True), (Fetch, True), (Enrichment, True), (MetadataCommit, True),
       (Indexing, True)]} \<and>
   gated [Replication, Fetch, Enrichment, MetadataCommit, Indexing]
     (stages_of (events_since w (snd (handle_minio_event mc wc cn sb tb k w)))) \<and>
   stages_of (events_since w (handle_minio_event_async mm wm cn sb tb k w)) \<in>
     {[(Replication, False)],
      [(Replication, True), (Fetch, False)],
      [(Replication, True), (Fetch, True), (Indexing, False)],
      [(Replication, True), (Fetch, True), (Indexing, True)]} \<and>
   gated [Replication, Fetch, Indexing]
     (stages_of (events_since w (handle_minio_event_async mm wm cn sb tb k w)))"
  using sync_stage_log[of w mc wc cn sb tb k] async_stage_log[of w mm wm cn sb tb k]
  by auto

text \<open>
  C1 as stated fails for \<open>handle_minio_event_async\<close>: with the managers the source
  builds (main.py 153-154), where every stage is a success, the Metadata Commit stage is
  not among the stages run.
\<close>

theorem async_run_has_no_metadata_commit:
  "stages_of (trace (handle_minio_event_async
      (MinioManager ''MINIO_ENDPOINT'' ''ACCESS_KEY'' ''SECRET_KEY'')
      (WeaviateManager ''WEAVIATE_ENDPOINT'') ''Images'' ''raw'' ''processed'' ''img1''
      (start ()))) =
     [(Replication, True), (Fetch, True), (Indexing, True)] \<and>
   MetadataCommit \<notin> set (map fst (stages_of (trace (handle_minio_event_async
      (MinioManager ''MINIO_ENDPOINT'' ''ACCESS_KEY'' ''SECRET_KEY'')
      (WeaviateManager ''WEAVIATE_ENDPOINT'') ''Images'' ''raw'' ''processed'' ''img1''
      (start ())))))"
  by (simp add: handle_minio_event_async_def stage_def await_def print_def MinioManager_def
        WeaviateManager_def start_def)

section \<open>Enrichment and the committed metadata\<close>

text \<open>
  The enrichment function returns the same mapping for every content, the Enrichment
  stage is never a failure, and the only \<open>copy_object\<close> call a run of
  \<open>handle_minio_event\<close> can make carries that mapping.
\<close>

lemma enrichment_is_constant:
  "process_object_content_for_metadata_enrichment content =
     fmap_of_list [(''example_key'', VStr ''example_value'')]"
  by (simp add: process_object_content_for_metadata_enrichment_def)

lemma enrichment_never_fails:
  "(Enrichment, False) \<notin>
     set (stages_of (events_since w (snd (handle_minio_event mc wc cn sb tb k w))))"
  using sync_stage_log[of w mc wc cn sb tb k] by auto

lemma copy_calls_of_run:
  "filter is_CopyObject
     (calls_of (events_since w (snd (handle_minio_event mc wc cn sb tb k w)))) \<in>
     {[], [the_copy tb k]}"
  using handle_minio_event_events[of tb k mc wc cn sb w]
  by cases (simp_all add: calls_of_append stage_run_no_copy(1) the_copy_def)

section \<open>Failures of a stage\<close>




section \<open>A failed commit\<close>

text \<open>
  C7, as the code has it. \<open>handle_minio_event\<close> calls \<open>copy_object\<close> at most once for an
  event, and when that call raises (a conflict or anything else) the coordinator makes no
  further client call: the events of the run end with the failed call, the line printed
  by \<open>update_object_metadata_in_minio\<close> (printed when the exception is an instance of
  \<open>Exception\<close>) and the failed Metadata Commit stage. There is no re-read and no retry.
\<close>

theorem failed_commit_is_not_retried:
  "length (filter is_CopyObject
      (calls_of (events_since w (snd (handle_minio_event mc wc cn sb tb k w))))) \<le> 1 \<and>
   (Call (CopyObject b k' src md) (Some e) \<in>
        set (events_since w (snd (handle_minio_event mc wc cn sb tb k w))) \<longrightarrow>
    (\<exists>pre. events_since w (snd (handle_minio_event mc wc cn sb tb k w)) =
       pre @ Call (CopyObject b k' src md) (Some e) #
         (if is_Exception e then [Print (''Error updating object metadata: '' @ exn_str e)]
          else []) @
         [Stage MetadataCommit False]))"
proof
  show "length (filter is_CopyObject
      (calls_of (events_since w (snd (handle_minio_event mc wc cn sb tb k w))))) \<le> 1"
    using copy_calls_of_run[of w mc wc cn sb tb k] by auto
  show "Call (CopyObject b k' src md) (Some e) \<in>
        set (events_since w (snd (handle_minio_event mc wc cn sb tb k w))) \<longrightarrow>
    (\<exists>pre. events_since w (snd (handle_minio_event mc wc cn sb tb k w)) =
       pre @ Call (CopyObject b k' src md) (Some e) #
         (if is_Exception e then [Print (''Error updating object metadata: '' @ exn_str e)]
          else []) @
         [Stage MetadataCommit False])"
  proof
    assume a: "Call (CopyObject b k' src md) (Some e) \<in>
        set (events_since w (snd (handle_minio_event mc wc cn sb tb k w)))"
    from handle_minio_event_events[of tb k mc wc cn sb w]
    show "\<exists>pre. events_since w (snd (handle_minio_event mc wc cn sb tb k w)) =
       pre @ Call (CopyObject b k' src md) (Some e) #
         (if is_Exception e then [Print (''Error updating object metadata: '' @ exn_str e)]
          else []) @
         [Stage MetadataCommit False]"
    proof cases
      case (stop_replication e1)
      with a stage_run_no_copy(2)[OF stop_replication(3)] show ?thesis
        by auto
    next
      case (leave_replication e' e1)
      with a stage_run_no_copy(2)[OF leave_replication(3)] show ?thesis
        by auto
    next
      case (stop_fetch e1 e2)
      with a stage_run_no_copy(2)[OF stop_fetch(3)] stage_run_no_copy(2)[OF stop_fetch(4)]
      show ?thesis
        by auto
    next
      case (leave_fetch e1 e' e2)
      with a stage_run_no_copy(2)[OF leave_fetch(3)] stage_run_no_copy(2)[OF leave_fetch(4)]
      show ?thesis
        by auto
    next
      case (stop_commit e1 e2 e')
      with a stage_run_no_copy(2)[OF stop_commit(3)] stage_run_no_copy(2)[OF stop_commit(4)]
      have ce: "the_copy tb k = CopyObject b k' src md \<and> e' = e"
        by auto
      with stop_commit(2,5) have
        "events_since w (snd (handle_minio_event mc wc cn sb tb k w)) =
           (e1 @ Stage Replication True # e2 @ [Stage Fetch True, Stage Enrichment True]) @
           Call (CopyObject b k' src md) (Some e) #
           (if is_Exception e then [Print (''Error updating object metadata: '' @ exn_str e)]
            else []) @
           [Stage MetadataCommit False]"
        by simp
      then show ?thesis
        by blast
    next
      case (leave_commit e1 e2 e')
      with a stage_run_no_copy(2)[OF leave_commit(3)] stage_run_no_copy(2)[OF leave_commit(4)]
      have ce: "the_copy tb k = CopyObject b k' src md \<and> e' = e"
        by auto
      with leave_commit(2,5) have
        "events_since w (snd (handle_minio_event mc wc cn sb tb k w)) =
           (e1 @ Stage Replication True # e2 @ [Stage Fetch True, Stage Enrichment True]) @
           Call (CopyObject b k' src md) (Some e) #
           (if is_Exception e then [Print (''Error updating object metadata: '' @ exn_str e)]
            else []) @
           [Stage MetadataCommit False]"
        by simp
      then show ?thesis
        by blast
    next
      case (through e1 e2 ok4 e4)
      with a stage_run_no_copy(2)[OF through(3)] stage_run_no_copy(2)[OF through(4)]
        stage_run_no_copy(2)[OF through(5)]
      show ?thesis
        by auto
    next
      case (leave_indexing e1 e2 e' e4)
      with a stage_run_no_copy(2)[OF leave_indexing(3)]
        stage_run_no_copy(2)[OF leave_indexing(4)] stage_run_no_copy(2)[OF leave_indexing(5)]
      show ?thesis
        by auto
    qed
  qed
qed

theorem failed_commit_is_not_retried_witness:
  "Call (CopyObject ''processed'' ''img1'' ''/processed/img1''
           (fmap_of_list [(''example_key'', VStr ''example_value'')]))
      (Some precondition_failed) \<in>
     set (events_since (start store0)
            (snd (handle_minio_event conflict_minio mem_weaviate ''Images'' ''raw''
                    ''processed'' ''img1'' (start store0)))) \<and>
   length (filter is_CopyObject (calls_of (events_since (start store0)
            (snd (handle_minio_event conflict_minio mem_weaviate ''Images'' ''raw''
                    ''processed'' ''img1'' (start store0)))))) \<le> 1 \<and>
   (\<exists>pre. events_since (start store0)
            (snd (handle_minio_event conflict_minio mem_weaviate ''Images'' ''raw''
                    ''processed'' ''img1'' (start store0))) =
      pre @ [Call (CopyObject ''processed'' ''img1'' ''/processed/img1''
                     (fmap_of_list [(''example_key'', VStr ''example_value'')]))
               (Some precondition_failed),
             Print (''Error updating object metadata: '' @ exn_str precondition_failed),
             Stage MetadataCommit False])"
proof -
  have h: "Call (CopyObject ''processed'' ''img1'' ''/processed/img1''
           (fmap_of_list [(''example_key'', VStr ''example_value'')]))
      (Some precondition_failed) \<in>
     set (events_since (start store0)
            (snd (handle_minio_event conflict_minio mem_weaviate ''Images'' ''raw''
                    ''processed'' ''img1'' (start store0))))"
    by (simp add: handle_minio_event_def stage_defs try_defs fixture_defs events_since_def)
  have c: "is_Exception precondition_failed"
    by (simp add: precondition_failed_def)
  from failed_commit_is_not_retried[of "start store0" conflict_minio mem_weaviate "''Images''"
      "''raw''" "''processed''" "''img1''" "''processed''" "''img1''" "''/processed/img1''"
      "fmap_of_list [(''example_key'', VStr ''example_value'')]" precondition_failed] h c
  show ?thesis
    by auto
qed

text \<open>
  C7 as stated fails: with a store whose \<open>copy_object\<close> reports a failed precondition,
  the run makes exactly one \<open>copy_object\<close> call, which is its last client call (nothing is
  read again, nothing is retried), and ends with the Metadata Commit stage failed.
\<close>

theorem conflict_is_not_retried:
  "calls_of (trace (snd (handle_minio_event conflict_minio mem_weaviate ''Images'' ''raw''
      ''processed'' ''img1'' (start store0)))) =
     [GetObject ''raw'' ''img1'', StreamStat (Stream ''pixels''),
      PutObject ''processed'' ''img1'' (Stream ''pixels'') 6,
      GetObject ''processed'' ''img1'', StatObject ''processed'' ''img1'',
      StreamRead (Stream ''pixels''),
      CopyObject ''processed'' ''img1'' ''/processed/img1''
        (fmap_of_list [(''example_key'', VStr ''example_value'')])] \<and>
   prints_of (trace (snd (handle_minio_event conflict_minio mem_weaviate ''Images'' ''raw''
      ''processed'' ''img1'' (start store0)))) =
     [''Error updating object metadata: PreconditionFailed''] \<and>
   stages_of (trace (snd (handle_minio_event conflict_minio mem_weaviate ''Images'' ''raw''
      ''processed'' ''img1'' (start store0)))) =
     [(Replication, True), (Fetch, True), (Enrichment, True), (MetadataCommit, False)]"
  by (simp add: handle_minio_event_def stage_defs try_defs fixture_defs)

section \<open>Replication\<close>

lemma replicate_object_reads_and_writes:
  "length (filter is_GetObject
      (calls_of (events_since w (snd (replicate_object mc sb tb k w))))) = 1 \<and>
   length (filter is_PutObject
      (calls_of (events_since w (snd (replicate_object mc sb tb k w))))) \<le> 1 \<and>
   (fst (replicate_object mc sb tb k w) = Inr True) =
     (\<exists>source_object n. Call (PutObject tb k source_object n) None \<in>
        set (events_since w (snd (replicate_object mc sb tb k w))))"
  unfolding replicate_object_def try_defs events_since_def
  by (auto split: prod.splits sum.splits)

lemma replicate_object_writes_after_read:
  "get_object mc sb k (cstate w) = (Inr source_object, s1) \<Longrightarrow>
   stream_stat_size mc source_object s1 = (Inr n, s2) \<Longrightarrow>
   calls_of (events_since w (snd (replicate_object mc sb tb k w))) =
     [GetObject sb k, StreamStat source_object, PutObject tb k source_object n]"
  unfolding replicate_object_def try_defs events_since_def
  by (auto split: prod.splits sum.splits)

lemma replicate_object_sync_eq:
  "replicate_object_sync self sb tb k w = replicate_object (mwm_minio_client self) sb tb k w"
  by (simp add: replicate_object_sync_def replicate_object_def)

text \<open>
  C4, as the code has it. For every source bucket, target bucket and key,
  \<open>replicate_object\<close> (and \<open>replicate_object_sync\<close>, which is the same code) makes one
  \<open>get_object\<close> call and at most one \<open>put_object\<close> call, and returns \<open>True\<close> exactly
  when the \<open>put_object\<close> call was made and did not raise. It never looks at the target:
  whenever the source can be read (\<open>get_object\<close> and \<open>stat\<close> return), it makes the
  \<open>put_object\<close> call, whatever the target bucket holds.
\<close>

theorem replication_reads_once_and_writes_whenever_read:
  "length (filter is_GetObject
      (calls_of (events_since w (snd (replicate_object mc sb tb k w))))) = 1 \<and>
   length (filter is_PutObject
      (calls_of (events_since w (snd (replicate_object mc sb tb k w))))) \<le> 1 \<and>
   (fst (replicate_object mc sb tb k w) = Inr True) =
     (\<exists>source_object n. Call (PutObject tb k source_object n) None \<in>
        set (events_since w (snd (replicate_object mc sb tb k w)))) \<and>
   (get_object mc sb k (cstate w) = (Inr source_object, s1) \<longrightarrow>
    stream_stat_size mc source_object s1 = (Inr n, s2) \<longrightarrow>
    calls_of (events_since w (snd (replicate_object mc sb tb k w))) =
      [GetObject sb k, StreamStat source_object, PutObject tb k source_object n]) \<and>
   replicate_object_sync self sb tb k w = replicate_object (mwm_minio_client self) sb tb k w"
  using replicate_object_reads_and_writes[of w mc sb tb k]
    replicate_object_writes_after_read[of mc sb k w source_object s1 n s2 tb]
    replicate_object_sync_eq[of self sb tb k w]
  by blast

theorem replication_reads_once_and_writes_whenever_read_witness:
  "get_object mem_minio ''raw'' ''img1'' (cstate (start store1)) =
     (Inr (Stream ''pixels''), store1) \<and>
   stream_stat_size mem_minio (Stream ''pixels'') store1 = (Inr 6, store1) \<and>
   calls_of (events_since (start store1)
      (snd (replicate_object mem_minio ''raw'' ''processed'' ''img1'' (start store1)))) =
     [GetObject ''raw'' ''img1'', StreamStat (Stream ''pixels''),
      PutObject ''processed'' ''img1'' (Stream ''pixels'') 6]"
proof -
  have g: "get_object mem_minio ''raw'' ''img1'' (cstate (start store1)) =
     (Inr (Stream ''pixels''), store1)"
    by (simp add: fixture_defs store1_def)
  have st: "stream_stat_size mem_minio (Stream ''pixels'') store1 = (Inr 6, store1)"
    by (simp add: fixture_defs)
  from replication_reads_once_and_writes_whenever_read[of "start store1" mem_minio "''raw''"
      "''processed''" "''img1''" "Stream ''pixels''" store1 6 store1] g st
  show ?thesis
    by blast
qed

text \<open>
  C4 as stated fails. After one replication the target holds an object identical to the
  source (same data, hence same etag); replicating again returns \<open>True\<close> and makes the
  \<open>put_object\<close> call a second time.
\<close>

theorem identical_object_is_written_again:
  "cstate (snd (replicate_object mem_minio ''raw'' ''processed'' ''img1'' (start store0))) =
     store1 \<and>
   map_option etag_of (fmlookup (objects store1) (''processed'', ''img1'')) =
     map_option etag_of (fmlookup (objects store1) (''raw'', ''img1'')) \<and>
   fmlookup (objects store1) (''processed'', ''img1'') \<noteq> None \<and>
   fst (replicate_object mem_minio ''raw'' ''processed'' ''img1'' (start store1)) = Inr True \<and>
   calls_of (trace (snd (replicate_object mem_minio ''raw'' ''processed'' ''img1''
      (start store1)))) =
     [GetObject ''raw'' ''img1'', StreamStat (Stream ''pixels''),
      PutObject ''processed'' ''img1'' (Stream ''pixels'') 6]"
  by (simp add: replicate_object_def try_defs fixture_defs store1_def etag_of_def)

section \<open>Indexing\<close>

lemma index_record_eq:
  "WeaviateClass_dict (from_minio_model cn (Object (MinioObject_init k md)) None) =
     index_record cn k md"
  by (simp add: model_defs index_record_def)

lemma index_events:
  "\<exists>x s'. index_object_and_metadata_in_weaviate wc cn k md w =
     (caught_result x, \<lparr>cstate = s', trace = trace w @
        Call (DataObjectCreate (index_record cn k md) cn) x #
        caught_events (stage_message Indexing) x\<rparr>)"
  unfolding index_object_and_metadata_in_weaviate_def try_defs caught_result_def
    caught_events_def
  by (auto split: prod.splits sum.splits simp: Let_def index_record_eq)

lemma index_sync_events:
  "\<exists>x s'. index_object_sync self cn k md w =
     (caught_result x, \<lparr>cstate = s', trace = trace w @
        Call (DataObjectCreate (index_record cn k md) cn) x #
        caught_events ''Error indexing object in Weaviate: '' x\<rparr>)"
  unfolding index_object_sync_def try_defs caught_result_def caught_events_def
  by (auto split: prod.splits sum.splits simp: Let_def index_record_eq)

lemma calls_of_caught_events: "calls_of (caught_events msg x) = []"
  by (simp add: caught_events_def split: option.splits)

lemma index_twice_calls:
  "calls_of (events_since w (snd (index_object_and_metadata_in_weaviate wc cn k md
      (snd (index_object_and_metadata_in_weaviate wc cn k md w))))) =
     [DataObjectCreate (index_record cn k md) cn, DataObjectCreate (index_record cn k md) cn]"
proof -
  let ?c = "DataObjectCreate (index_record cn k md) cn"
  obtain x1 s1 where 1: "index_object_and_metadata_in_weaviate wc cn k md w =
     (caught_result x1, \<lparr>cstate = s1, trace = trace w @ Call ?c x1 #
        caught_events (stage_message Indexing) x1\<rparr>)"
    using index_events[of wc cn k md w] by blast
  let ?w1 = "\<lparr>cstate = s1, trace = trace w @ Call ?c x1 #
        caught_events (stage_message Indexing) x1\<rparr>"
  obtain x2 s2 where 2: "index_object_and_metadata_in_weaviate wc cn k md ?w1 =
     (caught_result x2, \<lparr>cstate = s2, trace = trace ?w1 @ Call ?c x2 #
        caught_events (stage_message Indexing) x2\<rparr>)"
    using index_events[of wc cn k md ?w1] by blast
  have w1: "snd (index_object_and_metadata_in_weaviate wc cn k md w) = ?w1"
    using 1 by simp
  have "calls_of (events_since w (snd (index_object_and_metadata_in_weaviate wc cn k md ?w1))) =
      [?c, ?c]"
    unfolding 2 by (simp add: events_since_def calls_of_append calls_of_caught_events)
  then show ?thesis
    unfolding w1 .
qed

lemma index_sync_twice_calls:
  "calls_of (events_since w (snd (index_object_sync self cn k md
      (snd (index_object_sync self cn k md w))))) =
     [DataObjectCreate (index_record cn k md) cn, DataObjectCreate (index_record cn k md) cn]"
proof -
  let ?c = "DataObjectCreate (index_record cn k md) cn"
  obtain x1 s1 where 1: "index_object_sync self cn k md w =
     (caught_result x1, \<lparr>cstate = s1, trace = trace w @ Call ?c x1 #
        caught_events ''Error indexing object in Weaviate: '' x1\<rparr>)"
    using index_sync_events[of self cn k md w] by blast
  let ?w1 = "\<lparr>cstate = s1, trace = trace w @ Call ?c x1 #
        caught_events ''Error indexing object in Weaviate: '' x1\<rparr>"
  obtain x2 s2 where 2: "index_object_sync self cn k md ?w1 =
     (caught_result x2, \<lparr>cstate = s2, trace = trace ?w1 @ Call ?c x2 #
        caught_events ''Error indexing object in Weaviate: '' x2\<rparr>)"
    using index_sync_events[of self cn k md ?w1] by blast
  have w1: "snd (index_object_sync self cn k md w) = ?w1"
    using 1 by simp
  have "calls_of (events_since w (snd (index_object_sync self cn k md ?w1))) = [?c, ?c]"
    unfolding 2 by (simp add: events_since_def calls_of_append calls_of_caught_events)
  then show ?thesis
    unfolding w1 .
qed

text \<open>
  C3, as the code has it. For every object key and collection, each indexing call sends
  one \<open>data_object.create\<close> request with the record built from the key and the
  metadata, whose id is \<open>None\<close>; the code keeps no mapping from keys to ids and never
  looks up or replaces a record. Indexing the same key twice sends the same create
  request twice; whether the index then holds one record or two is up to the index store.
\<close>

theorem indexing_twice_sends_two_creates:
  "calls_of (events_since w (snd (index_object_and_metadata_in_weaviate wc cn k md
      (snd (index_object_and_metadata_in_weaviate wc cn k md w))))) =
     [DataObjectCreate
        (WeaviateClass_dict (from_minio_model cn (Object (MinioObject_init k md)) None)) cn,
      DataObjectCreate
        (WeaviateClass_dict (from_minio_model cn (Object (MinioObject_init k md)) None)) cn] \<and>
   calls_of (events_since w (snd (index_object_sync self cn k md
      (snd (index_object_sync self cn k md w))))) =
     [DataObjectCreate
        (WeaviateClass_dict (from_minio_model cn (Object (MinioObject_init k md)) None)) cn,
      DataObjectCreate
        (WeaviateClass_dict (from_minio_model cn (Object (MinioObject_init k md)) None)) cn] \<and>
   fmlookup (WeaviateClass_dict (from_minio_model cn (Object (MinioObject_init k md)) None))
     ''id'' = Some VNone"
  using index_twice_calls[of w wc cn k md] index_sync_twice_calls[of w self cn k md]
  by (simp add: index_record_eq) (simp add: index_record_def)

text \<open>
  C3 as stated fails: with an index store in which \<open>create\<close> without an id adds a record,
  indexing the key \<open>img1\<close> twice succeeds twice and leaves two records for that key.
\<close>

theorem indexing_twice_leaves_two_records:
  "fst (index_object_and_metadata_in_weaviate mem_weaviate ''Images'' ''img1''
         (fmap_of_list [(''example_key'', VStr ''example_value'')]) (start store1)) =
     Inr True \<and>
   fst (index_object_and_metadata_in_weaviate mem_weaviate ''Images'' ''img1''
         (fmap_of_list [(''example_key'', VStr ''example_value'')])
         (snd (index_object_and_metadata_in_weaviate mem_weaviate ''Images'' ''img1''
            (fmap_of_list [(''example_key'', VStr ''example_value'')]) (start store1)))) =
     Inr True \<and>
   index_records (cstate (snd (index_object_and_metadata_in_weaviate mem_weaviate ''Images''
         ''img1'' (fmap_of_list [(''example_key'', VStr ''example_value'')])
         (snd (index_object_and_metadata_in_weaviate mem_weaviate ''Images'' ''img1''
            (fmap_of_list [(''example_key'', VStr ''example_value'')]) (start store1)))))) =
     [(''Images'', index_record ''Images'' ''img1''
         (fmap_of_list [(''example_key'', VStr ''example_value'')])),
      (''Images'', index_record ''Images'' ''img1''
         (fmap_of_list [(''example_key'', VStr ''example_value'')]))]"
  by (simp add: index_object_and_metadata_in_weaviate_def try_defs fixture_defs store1_def
        index_record_eq)

text \<open>
  C5, as the code has it. For every collection, key and metadata mapping, the record the
  indexing stage builds has the collection as class name, no id, and exactly two
  properties: \<open>key\<close>, the object key, and \<open>metadata\<close>, the whole metadata mapping as one
  nested value. The entries of the metadata are not merged into the properties, and the
  other fields of the object (size, etag) are not set and so not included. This record,
  as a dictionary, is what the stage sends.
\<close>

theorem index_record_nests_metadata:
  "wc_class_name (from_minio_model cn (Object (MinioObject_init k md)) None) = cn \<and>
   wc_id (from_minio_model cn (Object (MinioObject_init k md)) None) = None \<and>
   wc_properties (from_minio_model cn (Object (MinioObject_init k md)) None) =
     fmap_of_list [(''key'', VStr k), (''metadata'', VDict md)] \<and>
   calls_of (events_since w (snd (index_object_and_metadata_in_weaviate wc cn k md w))) =
     [DataObjectCreate
        (fmap_of_list
           [(''class_name'', VStr cn),
            (''properties'', VDict (fmap_of_list [(''key'', VStr k), (''metadata'', VDict md)])),
            (''id'', VNone), (''context'', VDict fmempty)]) cn]"
proof -
  obtain x s' where "index_object_and_metadata_in_weaviate wc cn k md w =
     (caught_result x, \<lparr>cstate = s', trace = trace w @
        Call (DataObjectCreate (index_record cn k md) cn) x #
        caught_events (stage_message Indexing) x\<rparr>)"
    using index_events[of wc cn k md w] by blast
  then have "calls_of (events_since w (snd (index_object_and_metadata_in_weaviate wc cn k md w))) =
     [DataObjectCreate (index_record cn k md) cn]"
    by (simp add: events_since_def calls_of_caught_events)
  then show ?thesis
    by (simp add: index_record_def model_defs)
qed

text \<open>
  C5 as stated fails. Indexing the key \<open>img1\<close> with the metadata \<open>{"tag": "cat"}\<close>
  in collection \<open>Images\<close> leaves a record whose properties are
  \<open>{key: "img1", metadata: {"tag": "cat"}}\<close>: they have no \<open>tag\<close> and no \<open>etag\<close>. The
  whole pipeline on the event of the specification leaves the record with the fixed
  enrichment output nested in the same way.
\<close>

theorem index_record_is_not_the_union:
  "index_records (cstate (snd (index_object_and_metadata_in_weaviate mem_weaviate ''Images''
      ''img1'' (fmap_of_list [(''tag'', VStr ''cat'')]) (start store1)))) =
     [(''Images'', fmap_of_list
        [(''class_name'', VStr ''Images''),
         (''properties'', VDict (fmap_of_list
            [(''key'', VStr ''img1''), (''metadata'', VDict (fmap_of_list [(''tag'', VStr ''cat'')]))])),
         (''id'', VNone), (''context'', VDict fmempty)])] \<and>
   fmlookup (fmap_of_list
      [(''key'', VStr ''img1''), (''metadata'', VDict (fmap_of_list [(''tag'', VStr ''cat'')]))])
      ''tag'' = None \<and>
   fmlookup (fmap_of_list
      [(''key'', VStr ''img1''), (''metadata'', VDict (fmap_of_list [(''tag'', VStr ''cat'')]))])
      ''etag'' = None \<and>
   fmlookup (fmap_of_list
      [(''key'', VStr ''img1''), (''etag'', VStr ''e1''), (''tag'', VStr ''cat'')])
      ''tag'' = Some (VStr ''cat'') \<and>
   index_records (cstate (snd (handle_minio_event mem_minio mem_weaviate ''Images'' ''raw''
      ''processed'' ''img1'' (start store0)))) =
     [(''Images'', fmap_of_list
        [(''class_name'', VStr ''Images''),
         (''properties'', VDict (fmap_of_list
            [(''key'', VStr ''img1''),
             (''metadata'', VDict (fmap_of_list [(''example_key'', VStr ''example_value'')]))])),
         (''id'', VNone), (''context'', VDict fmempty)])]"
  by (simp add: handle_minio_event_def stage_defs try_defs fixture_defs store1_def model_defs)

section \<open>Client exceptions\<close>











section \<open>Asynchronous replication\<close>

text \<open>
  C10. For every source bucket, target bucket and key, if the GET of the source object
  in \<open>replicate_object_async\<close> returns a response whose status is not 200, the function
  returns \<open>False\<close>, the GET is the only request it made (no PUT is issued), and the
  external services are in the state the GET left them in.
\<close>

theorem replicate_object_async_no_put_unless_200:
  assumes "session_get (session self)
             (minio_endpoint self @ ''/'' @ sb @ ''/'' @ k) (cstate w) = (Inr response, s')"
    and "status response \<noteq> 200"
  shows "replicate_object_async self sb tb k w =
           (Inr False, \<lparr>cstate = s', trace = trace w @
              [Call (SessionGet (minio_endpoint self @ ''/'' @ sb @ ''/'' @ k)) None]\<rparr>) \<and>
         filter is_SessionPut (calls_of (events_since w
           (snd (replicate_object_async self sb tb k w)))) = []"
  using assms
  by (simp add: replicate_object_async_def try_defs events_since_def Let_def)

theorem replicate_object_async_no_put_unless_200_witness:
  "session_get (session (manager (status_session 404)))
     (minio_endpoint (manager (status_session 404)) @ ''/'' @ ''raw'' @ ''/'' @ ''img1'')
     (cstate (start store0)) = (Inr (Response 404 ''data''), store0) \<and>
   status (Response 404 ''data'') \<noteq> 200 \<and>
   replicate_object_async (manager (status_session 404)) ''raw'' ''processed'' ''img1''
     (start store0) =
   (Inr False, \<lparr>cstate = store0, trace = trace (start store0) @
        [Call (SessionGet (minio_endpoint (manager (status_session 404)) @
                 ''/'' @ ''raw'' @ ''/'' @ ''img1'')) None]\<rparr>) \<and>
   filter is_SessionPut (calls_of (events_since (start store0)
     (snd (replicate_object_async (manager (status_session 404)) ''raw'' ''processed''
        ''img1'' (start store0))))) = []"
proof -
  have g: "session_get (session (manager (status_session 404)))
     (minio_endpoint (manager (status_session 404)) @ ''/'' @ ''raw'' @ ''/'' @ ''img1'')
     (cstate (start store0)) = (Inr (Response 404 ''data''), store0)"
    by (simp add: manager_def status_session_def start_def)
  have n: "status (Response 404 ''data'') \<noteq> 200"
    by simp
  note r = replicate_object_async_no_put_unless_200[OF g n, of "''processed''"]
  from g n r show ?thesis
    by blast
qed

end
